theory Spec2Isabelle
  imports Main "HOL-Library.AList"
begin

section \<open>Options (types.ts)\<close>

text \<open>
  \<^verbatim>\<open>Prisma.PrismaClientOptions\<close> is opaque to the component: it is only handed to the
  client constructor.
\<close>

type_synonym PrismaClientOptions = string

record ModelsOptions =
  namespace :: "string option"
  tags :: "string list option"

text \<open>\<^verbatim>\<open>interface PrismaOptions\<close> (types.ts 33-40): every field is optional.\<close>

record PrismaOptions =
  prismaClient :: "PrismaClientOptions option"
  lazyConnect :: "bool option"
  models :: "ModelsOptions option"

text \<open>
  The constants of \<^verbatim>\<open>./keys\<close> (\<^verbatim>\<open>PrismaBindings\<close>) and the generated \<^verbatim>\<open>Prisma.ModelName\<close>
  are not part of the sources at hand; they are parameters of the model.
  \<^verbatim>\<open>componentConfigBindingKey\<close> is \<^verbatim>\<open>configBindingKeyFor(PrismaBindings.COMPONENT)\<close>
  (component.ts 31-33). \<^verbatim>\<open>connect_outcome c\<close> is what the database answers to
  \<^verbatim>\<open>$connect()\<close> of client \<open>c\<close>: \<open>None\<close> when the promise resolves, \<open>Some e\<close> when it
  rejects.
\<close>

datatype error =
  Error string
  | PrismaClientNotSingletonError
  | TypeError
  | RebindLocked string
  | KeyNotBound string
  | NoValueConfigured string

record Env =
  componentConfigBindingKey :: string
  PRISMA_CLIENT_INSTANCE :: string
  PRISMA_MODEL_NAMESPACE :: string
  PRISMA_MODEL_TAG :: string
  PRISMA_MIDDLEWARE_EXTENSION_POINT :: string
  ModelName :: "string list"
  connect_outcome :: "nat \<Rightarrow> error option"

text \<open>\<^verbatim>\<open>DEFAULT_PRISMA_OPTIONS\<close> (types.ts 46-52).\<close>

definition DEFAULT_PRISMA_OPTIONS :: "Env \<Rightarrow> PrismaOptions" where
  "DEFAULT_PRISMA_OPTIONS K =
     \<lparr>prismaClient = None,
      lazyConnect = Some False,
      models = Some \<lparr>namespace = Some (PRISMA_MODEL_NAMESPACE K),
                     tags = Some [PRISMA_MODEL_TAG K]\<rparr>\<rparr>"

section \<open>The container and the client\<close>

text \<open>
  Modelled from the spec: the dependency-injection container (\<^verbatim>\<open>Application\<close>,
  \<^verbatim>\<open>Binding\<close>, \<^verbatim>\<open>ContextView\<close> of \<^verbatim>\<open>@loopback/core\<close>) and the database client
  (\<^verbatim>\<open>PrismaClient\<close>) are external collaborators whose code is not among the sources.
  The spec describes a container "exposing bind/get/getBinding/createView operations
  and an extension-point view with a bind event", a binding as "a named registration
  mapping a key to a value/factory", a lock as "marking a binding immutable", and a
  client "exposing $connect, $disconnect, $use(middleware) and per-model accessor
  properties". The definitions of this section give these operations the meaning the
  component's code relies on: a binding is an object with an identity
  (\<^verbatim>\<open>new Binding(key)\<close> in the helper), the registry maps a key to one binding object
  and keeps the order in which keys were first registered, registering under a key
  whose current binding is locked fails, and a view lists the registered bindings that
  carry the extension-point tag.
\<close>

datatype BindingScope = TRANSIENT | CONTEXT | SINGLETON | APPLICATION | SERVER | REQUEST

datatype BindingType = CONSTANT | DYNAMIC_VALUE | CLASS | PROVIDER | ALIAS

text \<open>
  The values a binding can resolve to. Objects are named by their identity: \<open>VClient c\<close>
  is the client object \<open>c\<close>, \<open>VFunction f\<close> a (middleware) function, and
  \<open>VProperty c p\<close> the value of property \<open>p\<close> of client object \<open>c\<close>.
\<close>

datatype bvalue =
  VUndefined
  | VOptions PrismaOptions
  | VClient nat
  | VFunction nat
  | VProperty nat string

text \<open>
  A binding object. \<open>source\<close> is unset until the binding is given a value; for a
  constant it holds the constant, for the other types the value its factory yields.
\<close>

record Binding =
  key :: string
  source :: "(BindingType \<times> bvalue) option"
  scope :: BindingScope
  tagMap :: "(string \<times> string) list"
  isLocked :: bool

definition type :: "Binding \<Rightarrow> BindingType option" where
  "type b = map_option fst (source b)"

record PrismaClient =
  clientOptions :: "PrismaClientOptions option"
  middlewares :: "bvalue list"

text \<open>What the component does to the objects around it, in the order it does it.\<close>

datatype effect = Locked nat | Used nat bvalue | Connected nat | Disconnected nat

text \<open>
  The application with the objects reachable from it: the registry (key to binding
  object, in insertion order), the binding objects and the client objects by
  identity, the next fresh identities, and the effects so far.
\<close>

record Application =
  registry :: "(string \<times> nat) list"
  bindings :: "nat \<Rightarrow> Binding"
  nextBinding :: nat
  clients :: "nat \<Rightarrow> PrismaClient"
  nextClient :: nat
  trace :: "effect list"

text \<open>\<^verbatim>\<open>new Binding(key)\<close>: a fresh, unconfigured, unlocked binding object.\<close>

definition newBinding :: "string \<Rightarrow> Application \<Rightarrow> nat \<times> Application" where
  "newBinding k app =
     (nextBinding app,
      app\<lparr>bindings := (bindings app)(nextBinding app :=
             \<lparr>key = k, source = None, scope = TRANSIENT, tagMap = [], isLocked = False\<rparr>),
          nextBinding := Suc (nextBinding app)\<rparr>)"

text \<open>\<^verbatim>\<open>binding.to(value)\<close>, \<^verbatim>\<open>binding.inScope(scope)\<close>, \<^verbatim>\<open>binding.tag(name)\<close>,
  \<^verbatim>\<open>binding.lock()\<close>: updates of the binding object.\<close>

definition to :: "bvalue \<Rightarrow> nat \<Rightarrow> Application \<Rightarrow> Application" where
  "to v a app =
     app\<lparr>bindings := (bindings app)(a := (bindings app a)\<lparr>source := Some (CONSTANT, v)\<rparr>)\<rparr>"

definition inScope :: "BindingScope \<Rightarrow> nat \<Rightarrow> Application \<Rightarrow> Application" where
  "inScope sc a app =
     app\<lparr>bindings := (bindings app)(a := (bindings app a)\<lparr>scope := sc\<rparr>)\<rparr>"

definition tag :: "string \<Rightarrow> nat \<Rightarrow> Application \<Rightarrow> Application" where
  "tag t a app =
     app\<lparr>bindings := (bindings app)(a := (bindings app a)
            \<lparr>tagMap := AList.update t t (tagMap (bindings app a))\<rparr>)\<rparr>"

definition lock :: "nat \<Rightarrow> Application \<Rightarrow> Application" where
  "lock a app =
     app\<lparr>bindings := (bindings app)(a := (bindings app a)\<lparr>isLocked := True\<rparr>),
         trace := trace app @ [Locked a]\<rparr>"

text \<open>\<^verbatim>\<open>app.getBinding(key, {optional: true})\<close>.\<close>

definition getBinding :: "Application \<Rightarrow> string \<Rightarrow> nat option" where
  "getBinding app k = map_of (registry app) k"

text \<open>
  \<^verbatim>\<open>app.add(binding)\<close>: registers the binding object under its key. A key that is
  already registered keeps its place in the registry and gets the new object, unless
  its current binding is locked: then the call throws.
\<close>

definition add :: "nat \<Rightarrow> Application \<Rightarrow> error option \<times> Application" where
  "add a app =
     (let k = key (bindings app a) in
      case getBinding app k of
        None \<Rightarrow> (None, app\<lparr>registry := AList.update k a (registry app)\<rparr>)
      | Some old \<Rightarrow>
          if isLocked (bindings app old) then (Some (RebindLocked k), app)
          else (None, app\<lparr>registry := AList.update k a (registry app)\<rparr>))"

text \<open>\<^verbatim>\<open>app.bind(key)\<close>: creates a new binding object and adds it.\<close>

definition bind :: "string \<Rightarrow> Application \<Rightarrow> (error + nat) \<times> Application" where
  "bind k app =
     (case newBinding k app of (a, app1) \<Rightarrow>
        (case add a app1 of
           (Some e, app2) \<Rightarrow> (Inl e, app2)
         | (None, app2) \<Rightarrow> (Inr a, app2)))"

text \<open>Resolving a binding object: one that was never given a value cannot be resolved.\<close>

definition getValue :: "Binding \<Rightarrow> error + bvalue" where
  "getValue b = (case source b of None \<Rightarrow> Inl (NoValueConfigured (key b)) | Some (t, v) \<Rightarrow> Inr v)"

text \<open>\<^verbatim>\<open>app.getSync(key, {optional: true})\<close>: \<^verbatim>\<open>undefined\<close> for a key that is not bound.\<close>

definition getSync_optional :: "Application \<Rightarrow> string \<Rightarrow> error + bvalue" where
  "getSync_optional app k =
     (case getBinding app k of None \<Rightarrow> Inr VUndefined | Some a \<Rightarrow> getValue (bindings app a))"

text \<open>\<^verbatim>\<open>app.get(key)\<close> and \<^verbatim>\<open>context.getSync(key)\<close>: a key that is not bound is an error.\<close>

definition getSync :: "Application \<Rightarrow> string \<Rightarrow> error + bvalue" where
  "getSync app k =
     (case getBinding app k of None \<Rightarrow> Inl (KeyNotBound k) | Some a \<Rightarrow> getValue (bindings app a))"

text \<open>
  \<^verbatim>\<open>extensionFilter(extensionPointName)\<close> and the bindings of the view created with it:
  the registered bindings tagged as extensions for the extension point, in registry
  order.
\<close>

definition extensionFilter :: "string \<Rightarrow> Binding \<Rightarrow> bool" where
  "extensionFilter name b = (map_of (tagMap b) ''extensionFor'' = Some name)"

definition view_bindings :: "Env \<Rightarrow> Application \<Rightarrow> nat list" where
  "view_bindings K app =
     filter (\<lambda>a. extensionFilter (PRISMA_MIDDLEWARE_EXTENSION_POINT K) (bindings app a))
       (map snd (registry app))"

text \<open>\<^verbatim>\<open>view.values()\<close>: the values of the view's bindings, in order; fails at the first
  binding that cannot be resolved.\<close>

fun resolve_all :: "Application \<Rightarrow> nat list \<Rightarrow> error + bvalue list" where
  "resolve_all app [] = Inr []"
| "resolve_all app (a # as) =
     (case getValue (bindings app a) of
        Inl e \<Rightarrow> Inl e
      | Inr v \<Rightarrow> (case resolve_all app as of Inl e \<Rightarrow> Inl e | Inr vs \<Rightarrow> Inr (v # vs)))"

definition view_values :: "Env \<Rightarrow> Application \<Rightarrow> error + bvalue list" where
  "view_values K app = resolve_all app (view_bindings K app)"

text \<open>\<^verbatim>\<open>new PrismaClient(options)\<close> and \<^verbatim>\<open>client.$use(middleware)\<close>.\<close>

definition newPrismaClient ::
  "PrismaClientOptions option \<Rightarrow> Application \<Rightarrow> nat \<times> Application" where
  "newPrismaClient po app =
     (nextClient app,
      app\<lparr>clients := (clients app)(nextClient app := \<lparr>clientOptions = po, middlewares = []\<rparr>),
          nextClient := Suc (nextClient app)\<rparr>)"

definition use :: "nat \<Rightarrow> bvalue \<Rightarrow> Application \<Rightarrow> Application" where
  "use c m app =
     app\<lparr>clients := (clients app)(c := (clients app c)
            \<lparr>middlewares := middlewares (clients app c) @ [m]\<rparr>),
         trace := trace app @ [Used c m]\<rparr>"

section \<open>The model-binding helper\<close>

text \<open>
  \<^verbatim>\<open>createBindingFromPrismaModelName(modelObj, modelName)\<close>:
  \<^verbatim>\<open>new Binding(`${PRISMA_MODEL_NAMESPACE}.${modelName}`).to(modelObj).tag(PRISMA_MODEL_TAG)\<close>.
\<close>

definition createBindingFromPrismaModelName ::
  "Env \<Rightarrow> bvalue \<Rightarrow> string \<Rightarrow> Application \<Rightarrow> nat \<times> Application" where
  "createBindingFromPrismaModelName K modelObj modelName app =
     (case newBinding (PRISMA_MODEL_NAMESPACE K @ ''.'' @ modelName) app of
        (a, app1) \<Rightarrow> (a, tag (PRISMA_MODEL_TAG K) a (to modelObj a app1)))"

section \<open>The component (component.ts)\<close>

text \<open>
  The two listeners the component registers on the view's bind event: the constructor's
  (lines 154-156) and the one of \<^verbatim>\<open>init()\<close> (lines 275-289).
\<close>

datatype listener = LockOnBind | UseMiddlewareOnBind

text \<open>
  The private fields of \<^verbatim>\<open>PrismaComponent\<close>. The view \<^verbatim>\<open>_prismaMiddleware\<close> is given by
  the listeners registered on it; its bindings are \<open>view_bindings\<close>.
\<close>

record PrismaComponent =
  this_prismaClient :: "nat option"
  this_options :: PrismaOptions
  this_optionsBinding :: nat
  this_prismaMiddleware :: "listener list"
  this_isInitialized :: bool

text \<open>\<^verbatim>\<open>_ensureNoConflictingPrismaProvidedAndBound\<close> (lines 189-204).\<close>

definition ensureNoConflictingPrismaProvidedAndBound ::
  "Env \<Rightarrow> Application \<Rightarrow> nat option \<Rightarrow> error option" where
  "ensureNoConflictingPrismaProvidedAndBound K application prismaClient' =
     (case prismaClient' of
        None \<Rightarrow> None
      | Some c \<Rightarrow>
          (case getSync_optional application (PRISMA_CLIENT_INSTANCE K) of
             Inl e \<Rightarrow> Some e
           | Inr bound \<Rightarrow>
               if VClient c \<noteq> (if bound = VUndefined then VClient c else bound)
               then Some (Error ''A Prisma Client instance was provided whilst a different instance was bound to context.'')
               else None))"

text \<open>\<^verbatim>\<open>_ensureValidPrismaClientBinding\<close> (lines 206-225).\<close>

definition ensureValidPrismaClientBinding ::
  "Env \<Rightarrow> nat \<Rightarrow> Application \<Rightarrow> error option \<times> Application" where
  "ensureValidPrismaClientBinding K c application =
     (case getBinding application (PRISMA_CLIENT_INSTANCE K) of
        None \<Rightarrow>
          (case bind (PRISMA_CLIENT_INSTANCE K) application of
             (Inl e, app1) \<Rightarrow> (Some e, app1)
           | (Inr a, app1) \<Rightarrow> (None, inScope SINGLETON a (to (VClient c) a app1)))
      | Some a \<Rightarrow>
          if scope (bindings application a) \<noteq> SINGLETON
          then (Some PrismaClientNotSingletonError, application)
          else if type (bindings application a) \<noteq> Some CONSTANT
          then (Some (Error ''Prisma Client instance binding type not constant.''), application)
          else (None, application))"

text \<open>
  "Deep augment defaults for any unset options" (lines 168-171): only inside a
  \<^verbatim>\<open>models\<close> record that the caller supplied.
\<close>

definition augment_defaults :: "Env \<Rightarrow> PrismaOptions \<Rightarrow> PrismaOptions" where
  "augment_defaults K opts =
     (case models opts of
        None \<Rightarrow> opts
      | Some m \<Rightarrow>
          opts\<lparr>models := Some
            (m\<lparr>namespace := (case namespace m of
                               None \<Rightarrow> namespace (the (models (DEFAULT_PRISMA_OPTIONS K)))
                             | Some n \<Rightarrow> Some n),
               tags := (case tags m of
                          None \<Rightarrow> tags (the (models (DEFAULT_PRISMA_OPTIONS K)))
                        | Some t \<Rightarrow> Some t)\<rparr>)\<rparr>)"

text \<open>The backlog loop of line 153.\<close>

definition lock_all :: "nat list \<Rightarrow> Application \<Rightarrow> Application" where
  "lock_all as app = foldl (\<lambda>s a. lock a s) app as"

text \<open>
  The constructor (lines 133-180), called with the application, the optional client and
  the optional options. The decorated fields \<^verbatim>\<open>_optionsBinding\<close> and
  \<^verbatim>\<open>_prismaMiddleware\<close> have no initializer, so both \<^verbatim>\<open>??=\<close> assign. The result is
  the new component, or the error thrown, and the application as the constructor
  leaves it.
\<close>

definition "constructor" ::
  "Env \<Rightarrow> Application \<Rightarrow> nat option \<Rightarrow> PrismaOptions option
     \<Rightarrow> (error + PrismaComponent) \<times> Application" where
  "constructor K app prismaClient' options' =
     (case ensureNoConflictingPrismaProvidedAndBound K app prismaClient' of
        Some e \<Rightarrow> (Inl e, app)
      | None \<Rightarrow>
         (let app1 = lock_all (view_bindings K app) app;
              view = [LockOnBind] in
          case (case getBinding app1 (componentConfigBindingKey K) of
                  Some a \<Rightarrow> (Inr a, app1)
                | None \<Rightarrow> bind (componentConfigBindingKey K) app1) of
            (Inl e, app2) \<Rightarrow> (Inl e, app2)
          | (Inr ob, app2) \<Rightarrow>
             (let opts = augment_defaults K
                           (case options' of None \<Rightarrow> DEFAULT_PRISMA_OPTIONS K | Some opts' \<Rightarrow> opts');
                  this = \<lparr>this_prismaClient = prismaClient',
                          this_options = opts,
                          this_optionsBinding = ob,
                          this_prismaMiddleware = view,
                          this_isInitialized = False\<rparr> in
              if type (bindings app2 ob) = None
              then (case bind (componentConfigBindingKey K) app2 of
                      (Inl e, app3) \<Rightarrow> (Inl e, app3)
                    | (Inr nb, app3) \<Rightarrow> (Inr this, to (VOptions opts) nb app3))
              else (Inr this, app2))))"

text \<open>
  \<^verbatim>\<open>String.prototype.toLowerCase\<close> on the ASCII letters a model name is made of.
\<close>

definition lower_char :: "char \<Rightarrow> char" where
  "lower_char ch =
     (let n = (of_char ch :: nat) in if 65 \<le> n \<and> n \<le> 90 then char_of (n + 32) else ch)"

definition toLowerCase :: "string \<Rightarrow> string" where
  "toLowerCase s = map lower_char s"

text \<open>The loop over \<^verbatim>\<open>Prisma.ModelName\<close> (lines 292-301).\<close>

fun bind_models :: "Env \<Rightarrow> nat \<Rightarrow> string list \<Rightarrow> Application \<Rightarrow> error option \<times> Application" where
  "bind_models K c [] app = (None, app)"
| "bind_models K c (modelName # rest) app =
     (case createBindingFromPrismaModelName K (VProperty c (toLowerCase modelName)) modelName app of
        (a, app1) \<Rightarrow>
          (case add a (lock a app1) of
             (Some e, app2) \<Rightarrow> (Some e, app2)
           | (None, app2) \<Rightarrow> bind_models K c rest app2))"

text \<open>The loop of lines 272-273.\<close>

definition use_all :: "nat \<Rightarrow> bvalue list \<Rightarrow> Application \<Rightarrow> Application" where
  "use_all c ms app = foldl (\<lambda>s m. use c m s) app ms"

text \<open>
  Lines 244-259 of \<^verbatim>\<open>init()\<close>: validate the binding of the client the component
  holds, or refresh the options from the container, create a client and bind it.
\<close>

definition establish_client ::
  "Env \<Rightarrow> PrismaComponent \<times> Application \<Rightarrow> error option \<times> PrismaComponent \<times> Application" where
  "establish_client K s =
     (case s of (this, app) \<Rightarrow>
       (case this_prismaClient this of
          Some c \<Rightarrow>
            (case ensureValidPrismaClientBinding K c app of (e, app1) \<Rightarrow> (e, this, app1))
        | None \<Rightarrow>
            (case getSync app (componentConfigBindingKey K) of
               Inl e \<Rightarrow> (Some e, this, app)
             | Inr (VOptions opts) \<Rightarrow>
                 (case newPrismaClient (prismaClient opts) app of
                    (c, app1) \<Rightarrow>
                      (let this1 = this\<lparr>this_options := opts, this_prismaClient := Some c\<rparr> in
                       case bind (PRISMA_CLIENT_INSTANCE K) app1 of
                         (Inl e, app2) \<Rightarrow> (Some e, this1, app2)
                       | (Inr a, app2) \<Rightarrow>
                           (None, this1, inScope SINGLETON a (to (VClient c) a app2))))
             | Inr _ \<Rightarrow> (Some TypeError, this, app))))"

text \<open>
  \<^verbatim>\<open>init()\<close> (lines 236-304). The result is the error thrown, if any, with the
  component and the application as the call leaves them.
\<close>

definition init ::
  "Env \<Rightarrow> PrismaComponent \<times> Application \<Rightarrow> error option \<times> PrismaComponent \<times> Application" where
  "init K s =
     (case s of (this, app) \<Rightarrow>
       if this_isInitialized this then (None, this, app)
       else
        (case ensureNoConflictingPrismaProvidedAndBound K app (this_prismaClient this) of
           Some e \<Rightarrow> (Some e, this, app)
         | None \<Rightarrow>
            (case establish_client K (this, app) of
               (Some e, this1, app1) \<Rightarrow> (Some e, this1, app1)
             | (None, this1, app1) \<Rightarrow>
                (case getBinding app1 (PRISMA_CLIENT_INSTANCE K) of
                   None \<Rightarrow> (Some (KeyNotBound (PRISMA_CLIENT_INSTANCE K)), this1, app1)
                 | Some prismaClientBinding \<Rightarrow>
                    (let app2 = lock prismaClientBinding (lock (this_optionsBinding this1) app1) in
                     case view_values K app2 of
                       Inl e \<Rightarrow> (Some e, this1, app2)
                     | Inr prismaMiddlewares \<Rightarrow>
                        (case this_prismaClient this1 of
                           None \<Rightarrow> (Some TypeError, this1, app2)
                         | Some c \<Rightarrow>
                            (let app3 = use_all c prismaMiddlewares app2;
                                 this2 = this1\<lparr>this_prismaMiddleware :=
                                           this_prismaMiddleware this1 @ [UseMiddlewareOnBind]\<rparr> in
                             case bind_models K c (ModelName K) app3 of
                               (Some e, app4) \<Rightarrow> (Some e, this2, app4)
                             | (None, app4) \<Rightarrow>
                                 (None, this2\<lparr>this_isInitialized := True\<rparr>, app4))))))))"

text \<open>
  The listener of \<^verbatim>\<open>init()\<close> (lines 275-289), run for the binding object of the event.
\<close>

definition useMiddlewareOnBind :: "Env \<Rightarrow> nat \<Rightarrow> Application \<Rightarrow> error option \<times> Application" where
  "useMiddlewareOnBind K binding context =
     (if type (bindings context binding) \<noteq> Some CONSTANT
         \<or> scope (bindings context binding) \<noteq> SINGLETON
      then (Some (Error ''Prisma middleware is not bound as singleton and/or constant.''), context)
      else
       (case getSync context (PRISMA_CLIENT_INSTANCE K) of
          Inl e \<Rightarrow> (Some e, context)
        | Inr (VClient c) \<Rightarrow>
            (case getSync context (key (bindings context binding)) of
               Inl e \<Rightarrow> (Some e, context)
             | Inr m \<Rightarrow> (None, use c m context))
        | Inr _ \<Rightarrow> (Some TypeError, context)))"

text \<open>
  The view's bind event for a binding object: the listeners run in the order they were
  registered, and a listener that throws ends the emission.
\<close>

fun emit_bind :: "Env \<Rightarrow> listener list \<Rightarrow> nat \<Rightarrow> Application \<Rightarrow> error option \<times> Application" where
  "emit_bind K [] a app = (None, app)"
| "emit_bind K (LockOnBind # ls) a app = emit_bind K ls a (lock a app)"
| "emit_bind K (UseMiddlewareOnBind # ls) a app =
     (case useMiddlewareOnBind K a app of
        (Some e, app1) \<Rightarrow> (Some e, app1)
      | (None, app1) \<Rightarrow> emit_bind K ls a app1)"

text \<open>\<^verbatim>\<open>client.$connect()\<close>: the call is recorded; the outcome is the database's.\<close>

definition connect :: "Env \<Rightarrow> nat \<Rightarrow> Application \<Rightarrow> error option \<times> Application" where
  "connect K c app = (connect_outcome K c, app\<lparr>trace := trace app @ [Connected c]\<rparr>)"

text \<open>
  \<^verbatim>\<open>start()\<close> (lines 320-324). The first component of the result is how the returned
  promise settles: \<open>None\<close> when it resolves, \<open>Some e\<close> when it rejects.
\<close>

definition start ::
  "Env \<Rightarrow> PrismaComponent \<times> Application \<Rightarrow> error option \<times> PrismaComponent \<times> Application" where
  "start K s =
     (case (if \<not> this_isInitialized (fst s) then init K s else (None, s)) of
        (Some e, this1, app1) \<Rightarrow> (Some e, this1, app1)
      | (None, this1, app1) \<Rightarrow>
          if lazyConnect (this_options this1) = Some True then (None, this1, app1)
          else
           (case this_prismaClient this1 of
              None \<Rightarrow> (Some TypeError, this1, app1)
            | Some c \<Rightarrow> (case connect K c app1 of (r, app2) \<Rightarrow> (r, this1, app2))))"

section \<open>Registering a middleware\<close>

text \<open>
  What a caller does to register a middleware (README, "Registering Prisma
  middleware"): bind a key, give the new binding its value, type and scope and tag it
  as an extension for the middleware extension point. The view then emits its bind
  event for the binding to the listeners registered on it.
\<close>

definition bindMiddleware ::
  "Env \<Rightarrow> string \<Rightarrow> BindingType \<times> bvalue \<Rightarrow> BindingScope \<Rightarrow> Application
     \<Rightarrow> (error + nat) \<times> Application" where
  "bindMiddleware K k src sc app =
     (case bind k app of
        (Inl e, app1) \<Rightarrow> (Inl e, app1)
      | (Inr a, app1) \<Rightarrow>
          (Inr a,
           app1\<lparr>bindings := (bindings app1)(a := (bindings app1 a)
                   \<lparr>source := Some src, scope := sc,
                    tagMap := AList.update ''extensionFor''
                                (PRISMA_MIDDLEWARE_EXTENSION_POINT K) (tagMap (bindings app1 a))\<rparr>)\<rparr>))"

definition registerMiddleware ::
  "Env \<Rightarrow> listener list \<Rightarrow> string \<Rightarrow> BindingType \<times> bvalue \<Rightarrow> BindingScope \<Rightarrow> Application
     \<Rightarrow> error option \<times> Application" where
  "registerMiddleware K ls k src sc app =
     (case bindMiddleware K k src sc app of
        (Inl e, app1) \<Rightarrow> (Some e, app1)
      | (Inr a, app1) \<Rightarrow> emit_bind K ls a app1)"

text \<open>A sequence of registrations, each given by its key, its type and value, and its scope.\<close>

fun register_all ::
  "Env \<Rightarrow> listener list \<Rightarrow> (string \<times> (BindingType \<times> bvalue) \<times> BindingScope) list
     \<Rightarrow> Application \<Rightarrow> Application" where
  "register_all K ls [] app = app"
| "register_all K ls ((k, src, sc) # rest) app =
     register_all K ls rest (snd (registerMiddleware K ls k src sc app))"

section \<open>Notions used in the statements\<close>

text \<open>
  Every registered binding object has been created: new binding objects get identities
  that no registered binding has.
\<close>

definition wf_app :: "Application \<Rightarrow> bool" where
  "wf_app app = list_all (\<lambda>a. a < nextBinding app) (map snd (registry app))"

text \<open>The binding under the client key, if there is one, is not tagged as a middleware.\<close>

definition client_key_plain :: "Env \<Rightarrow> Application \<Rightarrow> bool" where
  "client_key_plain K app =
     (case getBinding app (PRISMA_CLIENT_INSTANCE K) of
        None \<Rightarrow> True
      | Some a \<Rightarrow> \<not> extensionFilter (PRISMA_MIDDLEWARE_EXTENSION_POINT K) (bindings app a))"

text \<open>In a trace, \<open>y\<close> comes after the first \<open>x\<close>.\<close>

definition occurs_before :: "effect \<Rightarrow> effect \<Rightarrow> effect list \<Rightarrow> bool" where
  "occurs_before x y xs = (y \<in> set (tl (dropWhile (\<lambda>z. z \<noteq> x) xs)))"

text \<open>The binding \<^verbatim>\<open>init()\<close> registers for a model name, for client \<open>c\<close>.\<close>

definition model_binding :: "Env \<Rightarrow> nat \<Rightarrow> string \<Rightarrow> Binding" where
  "model_binding K c m =
     \<lparr>key = PRISMA_MODEL_NAMESPACE K @ ''.'' @ m,
      source = Some (CONSTANT, VProperty c (toLowerCase m)),
      scope = TRANSIENT,
      tagMap = [(PRISMA_MODEL_TAG K, PRISMA_MODEL_TAG K)],
      isLocked = True\<rparr>"

section \<open>Example states\<close>

text \<open>
  Concrete constants, an empty application, an application in which client \<open>1\<close> is
  bound under the client key with a given binding type and scope, and components built
  by the constructor.
\<close>

definition K0 :: Env where
  "K0 = \<lparr>componentConfigBindingKey = ''components.PrismaComponent:$config'',
         PRISMA_CLIENT_INSTANCE = ''prisma.client'',
         PRISMA_MODEL_NAMESPACE = ''prismaModels'',
         PRISMA_MODEL_TAG = ''prismaModel'',
         PRISMA_MIDDLEWARE_EXTENSION_POINT = ''prisma.middleware'',
         ModelName = [''User'', ''BlogPost''],
         connect_outcome = (\<lambda>c. None)\<rparr>"

definition empty_binding :: Binding where
  "empty_binding = \<lparr>key = [], source = None, scope = TRANSIENT, tagMap = [], isLocked = False\<rparr>"

definition app0 :: Application where
  "app0 = \<lparr>registry = [], bindings = (\<lambda>a. empty_binding), nextBinding = 0,
           clients = (\<lambda>c. \<lparr>clientOptions = None, middlewares = []\<rparr>), nextClient = 0,
           trace = []\<rparr>"

definition app_client :: "BindingType \<Rightarrow> BindingScope \<Rightarrow> Application" where
  "app_client t sc =
     app0\<lparr>registry := [(''prisma.client'', 0)],
          bindings := (bindings app0)(0 :=
            \<lparr>key = ''prisma.client'', source = Some (t, VClient 1), scope = sc,
             tagMap = [], isLocked = False\<rparr>),
          nextBinding := 1, nextClient := 2\<rparr>"

definition constructed ::
  "Application \<Rightarrow> nat option \<Rightarrow> PrismaOptions option \<Rightarrow> PrismaComponent \<times> Application" where
  "constructed app pc opts = (case constructor K0 app pc opts of (r, app1) \<Rightarrow> (projr r, app1))"

definition standalone :: "PrismaComponent \<times> Application" where
  "standalone = constructed app0 None None"

definition initialized :: "PrismaComponent \<times> Application" where
  "initialized = snd (init K0 standalone)"

definition holder :: "BindingType \<Rightarrow> BindingScope \<Rightarrow> PrismaComponent \<times> Application" where
  "holder t sc = constructed (app_client t sc) (Some 1) None"

definition partial_options :: PrismaOptions where
  "partial_options =
     \<lparr>prismaClient = Some ''log'', lazyConnect = None,
      models = Some \<lparr>namespace = None, tags = Some [''mine'']\<rparr>\<rparr>"

definition lazy_options :: PrismaOptions where
  "lazy_options = \<lparr>prismaClient = None, lazyConnect = Some True, models = None\<rparr>"

definition lazy_initialized :: "PrismaComponent \<times> Application" where
  "lazy_initialized = snd (init K0 (constructed app0 None (Some lazy_options)))"

definition custom_options :: PrismaOptions where
  "custom_options =
     \<lparr>prismaClient = None, lazyConnect = None,
      models = Some \<lparr>namespace = Some ''custom'', tags = Some [''customTag'']\<rparr>\<rparr>"

definition custom_initialized :: "PrismaComponent \<times> Application" where
  "custom_initialized = snd (init K0 (constructed app0 None (Some custom_options)))"

definition two_middlewares :: "(string \<times> (BindingType \<times> bvalue) \<times> BindingScope) list" where
  "two_middlewares =
     [(''mw1'', (CONSTANT, VFunction 1), SINGLETON), (''mw2'', (CONSTANT, VFunction 2), SINGLETON)]"

text \<open>
  The standalone component after two middleware registrations, after \<^verbatim>\<open>init()\<close>, and
  after a third registration.
\<close>

definition with_backlog :: "PrismaComponent \<times> Application" where
  "with_backlog =
     (fst standalone,
      register_all K0 (this_prismaMiddleware (fst standalone)) two_middlewares (snd standalone))"

definition backlog_initialized :: "PrismaComponent \<times> Application" where
  "backlog_initialized = snd (init K0 with_backlog)"

definition late_registered :: "error option \<times> Application" where
  "late_registered =
     registerMiddleware K0 (this_prismaMiddleware (fst backlog_initialized)) ''mw3''
       (CONSTANT, VFunction 3) SINGLETON (snd backlog_initialized)"

definition bare_options :: PrismaOptions where
  "bare_options = \<lparr>prismaClient = None, lazyConnect = None, models = None\<rparr>"

text \<open>The options a constructed component works with, if the constructor returns.\<close>

definition effective_options ::
  "Env \<Rightarrow> Application \<Rightarrow> nat option \<Rightarrow> PrismaOptions option \<Rightarrow> PrismaOptions option" where
  "effective_options K app pc supplied =
     (case fst (constructor K app pc supplied) of
        Inl e \<Rightarrow> None
      | Inr this \<Rightarrow> Some (this_options this))"

abbreviation conflict_error :: error where
  "conflict_error \<equiv>
     Error ''A Prisma Client instance was provided whilst a different instance was bound to context.''"

abbreviation not_constant_error :: error where
  "not_constant_error \<equiv> Error ''Prisma Client instance binding type not constant.''"

abbreviation reject_error :: error where
  "reject_error \<equiv> Error ''Prisma middleware is not bound as singleton and/or constant.''"

section \<open>Basic facts\<close>

lemmas model_defs =
  constructor_def init_def establish_client_def ensureNoConflictingPrismaProvidedAndBound_def
  ensureValidPrismaClientBinding_def augment_defaults_def DEFAULT_PRISMA_OPTIONS_def
  lock_all_def view_bindings_def view_values_def extensionFilter_def getBinding_def getSync_def
  getSync_optional_def getValue_def bind_def add_def newBinding_def to_def inScope_def tag_def
  lock_def type_def newPrismaClient_def use_def use_all_def createBindingFromPrismaModelName_def
  toLowerCase_def lower_char_def useMiddlewareOnBind_def start_def connect_def Let_def
  bindMiddleware_def registerMiddleware_def

lemmas example_defs =
  K0_def app0_def empty_binding_def app_client_def constructed_def standalone_def
  lazy_options_def bare_options_def effective_options_def initialized_def holder_def
  lazy_initialized_def partial_options_def custom_options_def custom_initialized_def
  two_middlewares_def with_backlog_def backlog_initialized_def late_registered_def

lemma add_error: "fst (add a app) = Some e \<Longrightarrow> \<exists>k. e = RebindLocked k"
  by (auto simp: add_def Let_def split: option.splits if_splits)

lemma bind_error: "bind k app = (Inl e, app') \<Longrightarrow> \<exists>k. e = RebindLocked k"
  using add_error[of "fst (newBinding k app)" "snd (newBinding k app)"]
  by (auto simp: bind_def split: prod.splits option.splits)

lemma constructor_error:
  "fst (constructor K app pc opts) = Inl e \<Longrightarrow>
     ensureNoConflictingPrismaProvidedAndBound K app pc = Some e \<or> (\<exists>k. e = RebindLocked k)"
  unfolding constructor_def Let_def
  by (auto split: option.splits prod.splits sum.splits if_splits dest: bind_error)

lemma lock_keeps [simp]:
  "type (bindings (lock b app) a) = type (bindings app a)"
  "scope (bindings (lock b app) a) = scope (bindings app a)"
  "source (bindings (lock b app) a) = source (bindings app a)"
  "key (bindings (lock b app) a) = key (bindings app a)"
  "tagMap (bindings (lock b app) a) = tagMap (bindings app a)"
  "clients (lock b app) = clients app"
  "registry (lock b app) = registry app"
  "nextBinding (lock b app) = nextBinding app"
  "nextClient (lock b app) = nextClient app"
  by (simp_all add: lock_def type_def)

lemma init_success_initialized:
  "init K (this, app) = (None, this', app') \<Longrightarrow> this_isInitialized this'"
  unfolding init_def Let_def
  by (auto split: if_splits option.splits prod.splits sum.splits)

lemma init_success_client:
  "\<not> this_isInitialized this \<Longrightarrow> init K (this, app) = (None, this', app') \<Longrightarrow>
     this_prismaClient this' \<noteq> None"
  unfolding init_def Let_def
  by (auto split: if_splits option.splits prod.splits sum.splits)

lemma init_standalone_ok: "fst (init K0 standalone) = None"
  by (simp add: example_defs model_defs)

section \<open>Theorems\<close>

subsection \<open>C3: conflicting client handles\<close>

text \<open>
  C3. For a client handle given to the constructor and a client handle bound in the
  container: when both exist and are not the same object, the check throws and so does
  the constructor, leaving the application as it was; when the constructor is given no
  client, or nothing is bound, or the bound handle is the very same object, the check
  passes and the constructor does not throw the conflict error.
\<close>

theorem conflicting_client_throws:
  "(pc = Some c \<and> getSync_optional app (PRISMA_CLIENT_INSTANCE K) = Inr bound
      \<and> bound \<noteq> VUndefined \<and> bound \<noteq> VClient c
     \<longrightarrow> ensureNoConflictingPrismaProvidedAndBound K app pc = Some conflict_error
         \<and> constructor K app pc opts = (Inl conflict_error, app))
   \<and> (pc = None \<or> getSync_optional app (PRISMA_CLIENT_INSTANCE K) = Inr VUndefined
        \<or> (pc = Some c \<and> getSync_optional app (PRISMA_CLIENT_INSTANCE K) = Inr (VClient c))
     \<longrightarrow> ensureNoConflictingPrismaProvidedAndBound K app pc = None
         \<and> fst (constructor K app pc opts) \<noteq> Inl conflict_error)"
proof (intro conjI impI)
  assume h: "pc = Some c \<and> getSync_optional app (PRISMA_CLIENT_INSTANCE K) = Inr bound
      \<and> bound \<noteq> VUndefined \<and> bound \<noteq> VClient c"
  then show e: "ensureNoConflictingPrismaProvidedAndBound K app pc = Some conflict_error"
    by (auto simp: ensureNoConflictingPrismaProvidedAndBound_def)
  then show "constructor K app pc opts = (Inl conflict_error, app)"
    by (simp add: constructor_def)
next
  assume h: "pc = None \<or> getSync_optional app (PRISMA_CLIENT_INSTANCE K) = Inr VUndefined
        \<or> (pc = Some c \<and> getSync_optional app (PRISMA_CLIENT_INSTANCE K) = Inr (VClient c))"
  then show n: "ensureNoConflictingPrismaProvidedAndBound K app pc = None"
    by (auto simp: ensureNoConflictingPrismaProvidedAndBound_def split: option.splits)
  show "fst (constructor K app pc opts) \<noteq> Inl conflict_error"
  proof
    assume "fst (constructor K app pc opts) = Inl conflict_error"
    from constructor_error[OF this] n show False by simp
  qed
qed

theorem conflicting_client_throws_witness:
  "constructor K0 (app_client CONSTANT SINGLETON) (Some 2) None
     = (Inl conflict_error, app_client CONSTANT SINGLETON)
   \<and> ensureNoConflictingPrismaProvidedAndBound K0 (app_client CONSTANT SINGLETON) (Some 1) = None
   \<and> ensureNoConflictingPrismaProvidedAndBound K0 app0 (Some 1) = None"
proof -
  have g: "getSync_optional (app_client CONSTANT SINGLETON) (PRISMA_CLIENT_INSTANCE K0)
             = Inr (VClient 1)"
    by (simp add: getSync_optional_def getBinding_def getValue_def example_defs)
  have g0: "getSync_optional app0 (PRISMA_CLIENT_INSTANCE K0) = Inr VUndefined"
    by (simp add: getSync_optional_def getBinding_def example_defs)
  from g conflicting_client_throws
         [where pc = "Some 2" and c = 2 and app = "app_client CONSTANT SINGLETON"
            and K = K0 and bound = "VClient 1" and opts = None]
  have "constructor K0 (app_client CONSTANT SINGLETON) (Some 2) None
          = (Inl conflict_error, app_client CONSTANT SINGLETON)"
    by simp
  moreover
  from g conflicting_client_throws
         [where pc = "Some 1" and c = 1 and app = "app_client CONSTANT SINGLETON"
            and K = K0 and opts = None]
  have "ensureNoConflictingPrismaProvidedAndBound K0 (app_client CONSTANT SINGLETON) (Some 1) = None"
    by simp
  moreover
  from g0 conflicting_client_throws
         [where pc = "Some 1" and c = 1 and app = app0 and K = K0 and opts = None]
  have "ensureNoConflictingPrismaProvidedAndBound K0 app0 (Some 1) = None"
    by simp
  ultimately show ?thesis by simp
qed

subsection \<open>C1: a second init() changes nothing\<close>

text \<open>
  C1. When \<^verbatim>\<open>init()\<close> has returned without an error, calling it again returns at
  once without an error and leaves the component and the application exactly as the
  first call left them: no binding is created or locked, no middleware is attached and
  no field of the component changes.
\<close>

theorem init_twice_is_noop:
  "init K s = (None, s') \<Longrightarrow> init K s' = (None, s')"
proof -
  assume a: "init K s = (None, s')"
  obtain this app where s: "s = (this, app)" by (cases s)
  obtain this' app' where s': "s' = (this', app')" by (cases s')
  from a s s' have "this_isInitialized this'" using init_success_initialized by blast
  with s' show ?thesis by (simp add: init_def)
qed

theorem init_twice_is_noop_witness:
  "fst (init K0 standalone) = None
   \<and> init K0 (snd (init K0 standalone)) = (None, snd (init K0 standalone))"
proof -
  have h: "init K0 standalone = (None, snd (init K0 standalone))"
    using init_standalone_ok by (cases "init K0 standalone") simp
  from init_twice_is_noop [OF h] init_standalone_ok show ?thesis by simp
qed

subsection \<open>C5: start()\<close>

lemma initialized_facts:
  "this_isInitialized (fst initialized)"
  "lazyConnect (this_options (fst initialized)) = Some False"
  "this_prismaClient (fst initialized) = Some 0"
  by (simp_all add: example_defs model_defs)

lemma lazy_initialized_facts:
  "this_isInitialized (fst lazy_initialized)"
  "lazyConnect (this_options (fst lazy_initialized)) = Some True"
  by (simp_all add: example_defs model_defs)

lemma standalone_not_initialized: "\<not> this_isInitialized (fst standalone)"
  by (simp add: example_defs model_defs)

text \<open>
  C5. For an initialized component: with \<^verbatim>\<open>lazyConnect\<close> set to true, \<^verbatim>\<open>start()\<close>
  resolves and changes nothing, so the client's connect operation is not invoked; with
  \<^verbatim>\<open>lazyConnect\<close> false or unset, \<^verbatim>\<open>start()\<close> invokes the connect operation of the
  component's client once and settles as that operation does. For a component that is
  not initialized, \<^verbatim>\<open>start()\<close> first runs \<^verbatim>\<open>init()\<close>: it fails with the error of
  \<^verbatim>\<open>init()\<close>, or goes on as for the initialized component \<^verbatim>\<open>init()\<close> left, which
  holds a client.
\<close>

theorem start_connects_unless_lazy:
  "(this_isInitialized this \<and> lazyConnect (this_options this) = Some True
      \<longrightarrow> start K (this, app) = (None, this, app))
   \<and> (this_isInitialized this \<and> lazyConnect (this_options this) \<noteq> Some True
        \<and> this_prismaClient this = Some c
      \<longrightarrow> start K (this, app) = (connect_outcome K c, this, app\<lparr>trace := trace app @ [Connected c]\<rparr>))
   \<and> (\<not> this_isInitialized this
      \<longrightarrow> start K (this, app) =
            (case init K (this, app) of
               (Some e, s1) \<Rightarrow> (Some e, s1)
             | (None, s1) \<Rightarrow> start K s1)
          \<and> (\<forall>s1. init K (this, app) = (None, s1)
                \<longrightarrow> this_isInitialized (fst s1) \<and> this_prismaClient (fst s1) \<noteq> None))"
proof (intro conjI impI allI)
  assume "this_isInitialized this \<and> lazyConnect (this_options this) = Some True"
  then show "start K (this, app) = (None, this, app)" by (simp add: start_def)
next
  assume "this_isInitialized this \<and> lazyConnect (this_options this) \<noteq> Some True
        \<and> this_prismaClient this = Some c"
  then show "start K (this, app) = (connect_outcome K c, this, app\<lparr>trace := trace app @ [Connected c]\<rparr>)"
    by (simp add: start_def connect_def)
next
  assume n: "\<not> this_isInitialized this"
  show "start K (this, app) =
            (case init K (this, app) of
               (Some e, s1) \<Rightarrow> (Some e, s1)
             | (None, s1) \<Rightarrow> start K s1)"
  proof (cases "init K (this, app)")
    case (fields e this1 app1)
    show ?thesis
    proof (cases e)
      case None
      with fields have "this_isInitialized this1" using init_success_initialized by blast
      with None fields n show ?thesis by (simp add: start_def)
    next
      case (Some err)
      with fields n show ?thesis by (simp add: start_def)
    qed
  qed
next
  fix s1 assume n: "\<not> this_isInitialized this" and i: "init K (this, app) = (None, s1)"
  obtain this1 app1 where s1: "s1 = (this1, app1)" by (cases s1)
  from i s1 init_success_initialized have "this_isInitialized this1" by blast
  moreover from n i s1 init_success_client have "this_prismaClient this1 \<noteq> None" by blast
  ultimately show "this_isInitialized (fst s1)" "this_prismaClient (fst s1) \<noteq> None" using s1 by simp_all
qed

theorem start_connects_unless_lazy_witness:
  "start K0 lazy_initialized = (None, lazy_initialized)
   \<and> start K0 initialized
       = (None, fst initialized, (snd initialized)\<lparr>trace := trace (snd initialized) @ [Connected 0]\<rparr>)
   \<and> start K0 standalone = start K0 initialized"
proof -
  from start_connects_unless_lazy [where this = "fst lazy_initialized" and app = "snd lazy_initialized" and K = K0]
    lazy_initialized_facts
  have a: "start K0 lazy_initialized = (None, lazy_initialized)" by simp
  from start_connects_unless_lazy [where this = "fst initialized" and app = "snd initialized" and K = K0 and c = 0]
    initialized_facts
  have b: "start K0 initialized
       = (None, fst initialized, (snd initialized)\<lparr>trace := trace (snd initialized) @ [Connected 0]\<rparr>)"
    by (simp add: K0_def)
  have i: "init K0 standalone = (None, initialized)"
    using init_standalone_ok by (cases "init K0 standalone") (simp add: initialized_def)
  from start_connects_unless_lazy [where this = "fst standalone" and app = "snd standalone" and K = K0]
    standalone_not_initialized i
  have c: "start K0 standalone = start K0 initialized" by simp
  from a b c show ?thesis by simp
qed

subsection \<open>C6: an invalid client-handle binding at init()\<close>

lemma holder_facts:
  "\<not> this_isInitialized (fst (holder t sc))"
  "this_prismaClient (fst (holder t sc)) = Some 1"
  "ensureNoConflictingPrismaProvidedAndBound K0 (snd (holder t sc)) (Some 1) = None"
  "getBinding (snd (holder t sc)) (PRISMA_CLIENT_INSTANCE K0) = Some 0"
  "scope (bindings (snd (holder t sc)) 0) = sc"
  "type (bindings (snd (holder t sc)) 0) = Some t"
  by (simp_all add: example_defs model_defs)

text \<open>
  C6, as the claim states it, fails: a client-handle binding that exists at
  \<^verbatim>\<open>init()\<close> with singleton scope and a type other than constant makes \<^verbatim>\<open>init()\<close>
  fail with a plain error, not with the dedicated error kind.
\<close>

theorem non_constant_client_binding_error_is_generic:
  "getBinding (snd (holder DYNAMIC_VALUE SINGLETON)) (PRISMA_CLIENT_INSTANCE K0) = Some 0
   \<and> type (bindings (snd (holder DYNAMIC_VALUE SINGLETON)) 0) \<noteq> Some CONSTANT
   \<and> fst (init K0 (holder DYNAMIC_VALUE SINGLETON)) = Some not_constant_error
   \<and> fst (init K0 (holder DYNAMIC_VALUE SINGLETON)) \<noteq> Some PrismaClientNotSingletonError"
  by (simp add: example_defs model_defs)

text \<open>
  C6, amended. For a component that is not initialized and holds a client handle that
  passes the conflict check: when a client-handle binding exists and its scope is not
  singleton, \<^verbatim>\<open>init()\<close> fails with the dedicated \<^verbatim>\<open>PrismaClientNotSingletonError\<close>;
  when its scope is singleton and its type is not constant, \<^verbatim>\<open>init()\<close> fails with a
  plain error. In both cases the component and the application are left as they were,
  so the component is not initialized.
\<close>

theorem invalid_client_binding_fails_init:
  "\<not> this_isInitialized this \<Longrightarrow> this_prismaClient this = Some c \<Longrightarrow>
   ensureNoConflictingPrismaProvidedAndBound K app (Some c) = None \<Longrightarrow>
   getBinding app (PRISMA_CLIENT_INSTANCE K) = Some a \<Longrightarrow>
     (scope (bindings app a) \<noteq> SINGLETON
        \<longrightarrow> init K (this, app) = (Some PrismaClientNotSingletonError, this, app))
   \<and> (scope (bindings app a) = SINGLETON \<and> type (bindings app a) \<noteq> Some CONSTANT
        \<longrightarrow> init K (this, app) = (Some not_constant_error, this, app))"
  by (simp add: init_def establish_client_def ensureValidPrismaClientBinding_def)

theorem invalid_client_binding_fails_init_witness:
  "init K0 (holder CONSTANT TRANSIENT) = (Some PrismaClientNotSingletonError, holder CONSTANT TRANSIENT)
  \<and> init K0 (holder PROVIDER SINGLETON) = (Some not_constant_error, holder PROVIDER SINGLETON)"
proof -
  from invalid_client_binding_fails_init [where this = "fst (holder CONSTANT TRANSIENT)" and app = "snd (holder CONSTANT TRANSIENT)"
              and K = K0 and c = 1 and a = 0] holder_facts [of CONSTANT TRANSIENT]
  have a: "init K0 (holder CONSTANT TRANSIENT) = (Some PrismaClientNotSingletonError, holder CONSTANT TRANSIENT)"
    by simp
  from invalid_client_binding_fails_init [where this = "fst (holder PROVIDER SINGLETON)" and app = "snd (holder PROVIDER SINGLETON)"
              and K = K0 and c = 1 and a = 0] holder_facts [of PROVIDER SINGLETON]
  have b: "init K0 (holder PROVIDER SINGLETON) = (Some not_constant_error, holder PROVIDER SINGLETON)"
    by simp
  from a b show ?thesis by simp
qed

subsection \<open>C9: the effective options\<close>

text \<open>
  C9, as the claim states it, fails: for supplied options in which \<^verbatim>\<open>lazyConnect\<close> and
  \<^verbatim>\<open>models\<close> are unset, the effective options have them unset too, while the defaults
  set both.
\<close>

theorem unset_fields_stay_unset:
  "effective_options K0 app0 None (Some bare_options) = Some bare_options
   \<and> lazyConnect bare_options \<noteq> lazyConnect (DEFAULT_PRISMA_OPTIONS K0)
   \<and> models bare_options \<noteq> models (DEFAULT_PRISMA_OPTIONS K0)"
  by (simp add: example_defs model_defs)

text \<open>
  C9, amended. When the caller supplies no options, the effective options are the
  defaults. When the caller supplies options, \<^verbatim>\<open>prismaClient\<close> and \<^verbatim>\<open>lazyConnect\<close>
  are the caller's, set or unset; \<^verbatim>\<open>models\<close> stays unset when the caller left it
  unset, and inside a supplied \<^verbatim>\<open>models\<close> the namespace and the tags are the
  caller's where set and the defaults where unset.
\<close>

theorem constructor_effective_options:
  "(effective_options K app pc None = Some eff \<longrightarrow> eff = DEFAULT_PRISMA_OPTIONS K)
   \<and> (effective_options K app pc (Some opts) = Some eff \<longrightarrow>
        prismaClient eff = prismaClient opts
      \<and> lazyConnect eff = lazyConnect opts
      \<and> models eff =
          map_option
            (\<lambda>m. \<lparr>namespace = Some (case namespace m of
                                      None \<Rightarrow> PRISMA_MODEL_NAMESPACE K | Some n \<Rightarrow> n),
                   tags = Some (case tags m of None \<Rightarrow> [PRISMA_MODEL_TAG K] | Some t \<Rightarrow> t)\<rparr>)
            (models opts))"
  unfolding effective_options_def constructor_def Let_def
  by (auto split: option.splits prod.splits sum.splits if_splits
           simp: augment_defaults_def DEFAULT_PRISMA_OPTIONS_def)

theorem constructor_effective_options_witness:
  "effective_options K0 app0 None None = Some (DEFAULT_PRISMA_OPTIONS K0)
   \<and> map_option models (effective_options K0 app0 None (Some partial_options))
       = Some (Some \<lparr>namespace = Some ''prismaModels'', tags = Some [''mine'']\<rparr>)
   \<and> map_option lazyConnect (effective_options K0 app0 None (Some partial_options)) = Some None"
proof -
  have d: "effective_options K0 app0 None None = Some (the (effective_options K0 app0 None None))"
    by (simp add: example_defs model_defs)
  have p: "effective_options K0 app0 None (Some partial_options)
             = Some (the (effective_options K0 app0 None (Some partial_options)))"
    by (simp add: example_defs model_defs)
  from d constructor_effective_options [where K = K0 and app = app0 and pc = None
               and eff = "the (effective_options K0 app0 None None)"]
  have a: "effective_options K0 app0 None None = Some (DEFAULT_PRISMA_OPTIONS K0)" by simp
  from p constructor_effective_options [where K = K0 and app = app0 and pc = None and opts = partial_options
               and eff = "the (effective_options K0 app0 None (Some partial_options))"]
  have b: "models (the (effective_options K0 app0 None (Some partial_options)))
             = Some \<lparr>namespace = Some ''prismaModels'', tags = Some [''mine'']\<rparr>
         \<and> lazyConnect (the (effective_options K0 app0 None (Some partial_options))) = None"
    by (simp add: partial_options_def K0_def)
  from a b p show ?thesis by (metis option.simps(9))
qed

subsection \<open>C7: an invalid middleware binding after init()\<close>

lemma useMiddlewareOnBind_reject:
  "type (bindings app a) \<noteq> Some CONSTANT \<or> scope (bindings app a) \<noteq> SINGLETON \<Longrightarrow>
   useMiddlewareOnBind K a app = (Some reject_error, app)"
  by (auto simp: useMiddlewareOnBind_def)

lemma emit_bind_reject:
  "UseMiddlewareOnBind \<in> set ls \<Longrightarrow>
   type (bindings app a) \<noteq> Some CONSTANT \<or> scope (bindings app a) \<noteq> SINGLETON \<Longrightarrow>
   fst (emit_bind K ls a app) = Some reject_error
   \<and> clients (snd (emit_bind K ls a app)) = clients app"
proof (induction ls arbitrary: app)
  case Nil
  then show ?case by simp
next
  case (Cons l ls)
  show ?case
  proof (cases l)
    case LockOnBind
    with Cons.prems have "UseMiddlewareOnBind \<in> set ls" by simp
    moreover from Cons.prems(2)
    have "type (bindings (lock a app) a) \<noteq> Some CONSTANT
            \<or> scope (bindings (lock a app) a) \<noteq> SINGLETON"
      by simp
    ultimately have "fst (emit_bind K ls a (lock a app)) = Some reject_error
        \<and> clients (snd (emit_bind K ls a (lock a app))) = clients (lock a app)"
      by (rule Cons.IH)
    with LockOnBind show ?thesis by simp
  next
    case UseMiddlewareOnBind
    with Cons.prems(2) show ?thesis by (simp add: useMiddlewareOnBind_reject)
  qed
qed

lemma initialized_listeners:
  "this_prismaMiddleware (fst initialized) = [LockOnBind, UseMiddlewareOnBind]"
  by (simp add: example_defs model_defs)

lemma bad_bound:
  "fst (bindMiddleware K0 ''mw'' (DYNAMIC_VALUE, VFunction 7) SINGLETON (snd initialized)) = Inr 5"
  by (simp add: example_defs model_defs)

lemma bad_type:
  "type (bindings (snd (bindMiddleware K0 ''mw'' (DYNAMIC_VALUE, VFunction 7) SINGLETON
                          (snd initialized))) 5) = Some DYNAMIC_VALUE"
  by (simp add: example_defs model_defs)

lemma bindMiddleware_clients:
  "clients (snd (bindMiddleware K k src sc app)) = clients app"
  by (simp add: bindMiddleware_def bind_def add_def newBinding_def Let_def
           split: prod.splits option.splits)

text \<open>
  C7. When the binding of the bind event has a type other than constant or a scope
  other than singleton, the listener registered by \<^verbatim>\<open>init()\<close> throws and leaves the
  application as it was: \<^verbatim>\<open>$use\<close> is not invoked. Whatever listeners the view has,
  if that listener is among them the event ends with this error and every client's
  middleware chain is as before the event.
\<close>

theorem invalid_middleware_rejected_before_attach:
  "type (bindings app a) \<noteq> Some CONSTANT \<or> scope (bindings app a) \<noteq> SINGLETON \<Longrightarrow>
     useMiddlewareOnBind K a app = (Some reject_error, app)
   \<and> (UseMiddlewareOnBind \<in> set ls \<longrightarrow>
        fst (emit_bind K ls a app) = Some reject_error
      \<and> clients (snd (emit_bind K ls a app)) = clients app)"
  using useMiddlewareOnBind_reject emit_bind_reject by blast

theorem invalid_middleware_rejected_before_attach_witness:
  "fst (registerMiddleware K0 (this_prismaMiddleware (fst initialized)) ''mw''
          (DYNAMIC_VALUE, VFunction 7) SINGLETON (snd initialized)) = Some reject_error
   \<and> clients (snd (registerMiddleware K0 (this_prismaMiddleware (fst initialized)) ''mw''
          (DYNAMIC_VALUE, VFunction 7) SINGLETON (snd initialized))) = clients (snd initialized)"
proof -
  let ?app = "snd (bindMiddleware K0 ''mw'' (DYNAMIC_VALUE, VFunction 7) SINGLETON (snd initialized))"
  have h: "type (bindings ?app 5) \<noteq> Some CONSTANT \<or> scope (bindings ?app 5) \<noteq> SINGLETON"
    by (simp add: bad_type)
  have m: "UseMiddlewareOnBind \<in> set [LockOnBind, UseMiddlewareOnBind]" by simp
  from invalid_middleware_rejected_before_attach
         [OF h, where K = K0 and ls = "[LockOnBind, UseMiddlewareOnBind]"] m
  have "fst (emit_bind K0 [LockOnBind, UseMiddlewareOnBind] 5 ?app) = Some reject_error
      \<and> clients (snd (emit_bind K0 [LockOnBind, UseMiddlewareOnBind] 5 ?app)) = clients ?app"
    by blast
  moreover have "registerMiddleware K0 (this_prismaMiddleware (fst initialized)) ''mw''
          (DYNAMIC_VALUE, VFunction 7) SINGLETON (snd initialized)
        = emit_bind K0 [LockOnBind, UseMiddlewareOnBind] 5 ?app"
    using bad_bound
    by (cases "bindMiddleware K0 ''mw'' (DYNAMIC_VALUE, VFunction 7) SINGLETON (snd initialized)")
       (simp add: registerMiddleware_def initialized_listeners del: emit_bind.simps)
  ultimately show ?thesis by (simp add: bindMiddleware_clients)
qed

subsection \<open>C8: the model-accessor bindings\<close>

lemma model_step:
  assumes "createBindingFromPrismaModelName K (VProperty c (toLowerCase m)) m app = (a, app1)"
    and "add a (lock a app1) = (None, app2)"
  shows "a = nextBinding app"
    and "nextBinding app2 = Suc (nextBinding app)"
    and "getBinding app2 (PRISMA_MODEL_NAMESPACE K @ ''.'' @ m) = Some a"
    and "bindings app2 a = model_binding K c m"
    and "\<And>b. b \<noteq> a \<Longrightarrow> bindings app2 b = bindings app b"
    and "\<And>k. k \<noteq> PRISMA_MODEL_NAMESPACE K @ ''.'' @ m \<Longrightarrow> getBinding app2 k = getBinding app k"
    and "clients app2 = clients app"
    and "\<And>old. getBinding app (PRISMA_MODEL_NAMESPACE K @ ''.'' @ m) = Some old \<Longrightarrow>
            old \<noteq> nextBinding app \<Longrightarrow> \<not> isLocked (bindings app old)"
  using assms
  by (auto simp: createBindingFromPrismaModelName_def newBinding_def to_def tag_def lock_def add_def
        getBinding_def Let_def model_binding_def AList.update_conv'
        split: option.splits if_splits)

lemma bind_models_keeps_locked:
  "bind_models K c names app = (None, app') \<Longrightarrow> getBinding app k = Some a \<Longrightarrow>
   isLocked (bindings app a) \<Longrightarrow> a < nextBinding app \<Longrightarrow>
   getBinding app' k = Some a \<and> bindings app' a = bindings app a"
proof (induction names arbitrary: app)
  case Nil
  then show ?case by simp
next
  case (Cons m rest)
  obtain n app1 where c: "createBindingFromPrismaModelName K (VProperty c (toLowerCase m)) m app = (n, app1)"
    by (cases "createBindingFromPrismaModelName K (VProperty c (toLowerCase m)) m app")
  obtain e app2 where ad: "add n (lock n app1) = (e, app2)" by (cases "add n (lock n app1)")
  from Cons.prems(1) c ad have e: "e = None" and r: "bind_models K c rest app2 = (None, app')"
    by (auto split: option.splits)
  note st = model_step [OF c ad [unfolded e]]
  from Cons.prems(4) st(1) have ne: "a \<noteq> n" by simp
  have k: "k \<noteq> PRISMA_MODEL_NAMESPACE K @ ''.'' @ m"
  proof
    assume "k = PRISMA_MODEL_NAMESPACE K @ ''.'' @ m"
    with Cons.prems(2) have "getBinding app (PRISMA_MODEL_NAMESPACE K @ ''.'' @ m) = Some a" by simp
    from st(8) [OF this] ne st(1) Cons.prems(3) show False by simp
  qed
  have "getBinding app2 k = Some a" using st(6) [OF k] Cons.prems(2) by simp
  moreover have b: "bindings app2 a = bindings app a" using st(5) [OF ne] .
  moreover have "isLocked (bindings app2 a)" using b Cons.prems(3) by simp
  moreover have "a < nextBinding app2" using st(2) Cons.prems(4) by simp
  ultimately have "getBinding app' k = Some a \<and> bindings app' a = bindings app2 a"
    using Cons.IH [OF r] by blast
  with b show ?case by simp
qed

lemma bind_models_registers:
  "bind_models K c names app = (None, app') \<Longrightarrow> m \<in> set names \<Longrightarrow>
   \<exists>a. getBinding app' (PRISMA_MODEL_NAMESPACE K @ ''.'' @ m) = Some a
      \<and> bindings app' a = model_binding K c m"
proof (induction names arbitrary: app)
  case Nil
  then show ?case by simp
next
  case (Cons x rest)
  obtain n app1 where c: "createBindingFromPrismaModelName K (VProperty c (toLowerCase x)) x app = (n, app1)"
    by (cases "createBindingFromPrismaModelName K (VProperty c (toLowerCase x)) x app")
  obtain e app2 where ad: "add n (lock n app1) = (e, app2)" by (cases "add n (lock n app1)")
  from Cons.prems(1) c ad have e: "e = None" and r: "bind_models K c rest app2 = (None, app')"
    by (auto split: option.splits)
  note st = model_step [OF c ad [unfolded e]]
  show ?case
  proof (cases "m = x")
    case True
    have "isLocked (bindings app2 n)" using st(4) by (simp add: model_binding_def)
    moreover have "n < nextBinding app2" using st(1,2) by simp
    ultimately have "getBinding app' (PRISMA_MODEL_NAMESPACE K @ ''.'' @ x) = Some n
        \<and> bindings app' n = bindings app2 n"
      using bind_models_keeps_locked [OF r st(3)] by blast
    with True st(4) show ?thesis by simp
  next
    case False
    with Cons.prems(2) have "m \<in> set rest" by simp
    from Cons.IH [OF r this] show ?thesis .
  qed
qed

lemma init_success_models:
  "\<not> this_isInitialized this \<Longrightarrow> init K (this, app) = (None, this', app') \<Longrightarrow>
   \<exists>c app3. this_prismaClient this' = Some c \<and> bind_models K c (ModelName K) app3 = (None, app')"
  unfolding init_def Let_def
  by (auto split: if_splits option.splits prod.splits sum.splits)




subsection \<open>C10: the model-accessor bindings do not depend on the options\<close>

lemma helper_key_tag:
  "createBindingFromPrismaModelName K modelObj m app = (a, app1) \<Longrightarrow>
      key (bindings app1 a) = PRISMA_MODEL_NAMESPACE K @ ''.'' @ m
    \<and> tagMap (bindings app1 a) = [(PRISMA_MODEL_TAG K, PRISMA_MODEL_TAG K)]"
  by (auto simp: createBindingFromPrismaModelName_def newBinding_def to_def tag_def)

lemma init_model_key_tag:
  assumes n: "\<not> this_isInitialized this"
    and i: "init K (this\<lparr>this_options := opts\<rparr>, app) = (None, this', app')"
    and m: "m \<in> set (ModelName K)"
  shows "\<exists>b. getBinding app' (PRISMA_MODEL_NAMESPACE K @ ''.'' @ m) = Some b
          \<and> key (bindings app' b) = PRISMA_MODEL_NAMESPACE K @ ''.'' @ m
          \<and> tagMap (bindings app' b) = [(PRISMA_MODEL_TAG K, PRISMA_MODEL_TAG K)]"
proof -
  from n have n': "\<not> this_isInitialized (this\<lparr>this_options := opts\<rparr>)" by simp
  from init_success_models [OF n' i] obtain c app3 where
    b: "bind_models K c (ModelName K) app3 = (None, app')"
    by blast
  from bind_models_registers [OF b m] obtain b where
    "getBinding app' (PRISMA_MODEL_NAMESPACE K @ ''.'' @ m) = Some b"
    "bindings app' b = model_binding K c m" by blast
  then show ?thesis by (auto simp: model_binding_def)
qed

lemma custom_facts:
  "\<not> this_isInitialized (fst (constructed app0 None (Some custom_options)))"
  "models (this_options (fst (constructed app0 None (Some custom_options))))
     = Some \<lparr>namespace = Some ''custom'', tags = Some [''customTag'']\<rparr>"
  "fst (init K0 (constructed app0 None (Some custom_options))) = None"
  "models (this_options (fst custom_initialized))
     = Some \<lparr>namespace = Some ''custom'', tags = Some [''customTag'']\<rparr>"
  "getBinding (snd custom_initialized) ''custom.User'' = None"
  by (simp_all add: example_defs model_defs)

text \<open>
  C10. The helper gives a model binding the key made of the constant
  \<^verbatim>\<open>PRISMA_MODEL_NAMESPACE\<close> joined with the model name and the single tag
  \<^verbatim>\<open>PRISMA_MODEL_TAG\<close>. Whatever options the component holds when \<^verbatim>\<open>init()\<close> is
  called, and whatever options are bound in the container, after a successful
  \<^verbatim>\<open>init()\<close> the binding registered for each model name has that key and that tag.
\<close>

theorem model_bindings_ignore_options:
  "(createBindingFromPrismaModelName K modelObj m app = (a, app1) \<longrightarrow>
      key (bindings app1 a) = PRISMA_MODEL_NAMESPACE K @ ''.'' @ m
    \<and> tagMap (bindings app1 a) = [(PRISMA_MODEL_TAG K, PRISMA_MODEL_TAG K)])
   \<and> (\<not> this_isInitialized this
       \<and> init K (this\<lparr>this_options := opts\<rparr>, app) = (None, this', app')
       \<and> m \<in> set (ModelName K) \<longrightarrow>
      (\<exists>b. getBinding app' (PRISMA_MODEL_NAMESPACE K @ ''.'' @ m) = Some b
          \<and> key (bindings app' b) = PRISMA_MODEL_NAMESPACE K @ ''.'' @ m
          \<and> tagMap (bindings app' b) = [(PRISMA_MODEL_TAG K, PRISMA_MODEL_TAG K)]))"
  using helper_key_tag [of K modelObj m app a app1] init_model_key_tag [of this K opts app this' app' m]
  by blast

theorem model_bindings_ignore_options_witness:
  "models (this_options (fst custom_initialized))
     = Some \<lparr>namespace = Some ''custom'', tags = Some [''customTag'']\<rparr>
   \<and> getBinding (snd custom_initialized) ''custom.User'' = None
   \<and> (\<exists>b. getBinding (snd custom_initialized) ''prismaModels.User'' = Some b
          \<and> key (bindings (snd custom_initialized) b) = ''prismaModels.User''
          \<and> tagMap (bindings (snd custom_initialized) b) = [(''prismaModel'', ''prismaModel'')])"
proof -
  let ?s = "constructed app0 None (Some custom_options)"
  have i: "init K0 ((fst ?s)\<lparr>this_options := this_options (fst ?s)\<rparr>, snd ?s)
             = (None, fst custom_initialized, snd custom_initialized)"
    using custom_facts(3) by (cases "init K0 ?s") (simp add: custom_initialized_def)
  have m: "''User'' \<in> set (ModelName K0)" by (simp add: K0_def)
  from model_bindings_ignore_options [where K = K0 and this = "fst ?s" and opts = "this_options (fst ?s)" and app = "snd ?s"
              and this' = "fst custom_initialized" and app' = "snd custom_initialized"
              and m = "''User''"]
    custom_facts(1) i m
  have "\<exists>b. getBinding (snd custom_initialized) ''prismaModels.User'' = Some b
          \<and> key (bindings (snd custom_initialized) b) = ''prismaModels.User''
          \<and> tagMap (bindings (snd custom_initialized) b) = [(''prismaModel'', ''prismaModel'')]"
    by (simp add: K0_def)
  with custom_facts(4,5) show ?thesis by simp
qed

subsection \<open>C2: the locks after init()\<close>

text \<open>
  C2, evaluated for a component constructed on an empty application without a client
  and without options. The constructor keeps the binding object \<open>0\<close> it first
  created for the options in \<^verbatim>\<open>_optionsBinding\<close> and then binds the options key again
  (line 178), which registers the new binding object \<open>1\<close>. \<^verbatim>\<open>init()\<close> succeeds and
  locks object \<open>0\<close>; the binding registered under the options key is object \<open>1\<close> and
  is not locked, so binding the options key again succeeds. Binding the client key
  again fails.
\<close>

theorem options_binding_left_unlocked:
  "fst (init K0 standalone) = None
   \<and> this_optionsBinding (fst initialized) = 0
   \<and> isLocked (bindings (snd initialized) 0)
   \<and> getBinding (snd initialized) (componentConfigBindingKey K0) = Some 1
   \<and> \<not> isLocked (bindings (snd initialized) 1)
   \<and> fst (bind (componentConfigBindingKey K0) (snd initialized)) = Inr 5
   \<and> fst (bind (PRISMA_CLIENT_INSTANCE K0) (snd initialized)) = Inl (RebindLocked ''prisma.client'')"
  by (simp add: example_defs model_defs)

end
